theory Spec2Isabelle
  imports Main "HOL-Library.Multiset"
begin

section \<open>Python values\<close>

text \<open>
  A Python string is a sequence of code points. The model's strings are lists of
  \<^typ>\<open>char\<close>, read as the code points 0 to 255 (one \<^typ>\<open>char\<close> per code point,
  so \<^const>\<open>length\<close> counts what Python's \<open>len\<close> counts). The classification of
  characters below is the one of \<open>str.isalnum\<close> and of the whitespace that \<open>str.strip\<close>
  and \<open>str.split\<close> use, on that range.
\<close>

definition isalnum :: "char \<Rightarrow> bool" where
  "isalnum c =
     (let n = (of_char c :: nat) in
        (48 \<le> n \<and> n \<le> 57) \<or> (65 \<le> n \<and> n \<le> 90) \<or> (97 \<le> n \<and> n \<le> 122) \<or>
        n \<in> {170, 178, 179, 181, 185, 186, 188, 189, 190} \<or>
        (192 \<le> n \<and> n \<le> 214) \<or> (216 \<le> n \<and> n \<le> 246) \<or> (248 \<le> n \<and> n \<le> 255))"

definition isspace :: "char \<Rightarrow> bool" where
  "isspace c = ((of_char c :: nat) \<in> {9, 10, 11, 12, 13, 28, 29, 30, 31, 32, 133, 160})"

text \<open>\<open>s.strip()\<close>: leading and trailing whitespace removed.\<close>

definition py_strip :: "string \<Rightarrow> string" where
  "py_strip s = rev (dropWhile isspace (rev (dropWhile isspace s)))"

text \<open>
  \<open>s.split()\<close>: the maximal runs of non-whitespace characters, in order; \<open>cur\<close> is the
  run being read.
\<close>

fun split_from :: "string \<Rightarrow> string \<Rightarrow> string list" where
  "split_from cur [] = (if cur = [] then [] else [cur])"
| "split_from cur (c # cs) =
     (if isspace c then (if cur = [] then split_from [] cs else cur # split_from [] cs)
      else split_from (cur @ [c]) cs)"

definition py_split :: "string \<Rightarrow> string list" where
  "py_split s = split_from [] s"

text \<open>\<open>sep.join(ws)\<close>.\<close>

fun py_join :: "string \<Rightarrow> string list \<Rightarrow> string" where
  "py_join sep [] = []"
| "py_join sep [x] = x"
| "py_join sep (x # y # ys) = x @ sep @ py_join sep (y # ys)"

text \<open>\<open>s.replace(old, new)\<close> for one-character \<open>old\<close> and \<open>new\<close>.\<close>

definition replace_char :: "char \<Rightarrow> char \<Rightarrow> string \<Rightarrow> string" where
  "replace_char old new s = map (\<lambda>c. if c = old then new else c) s"

text \<open>\<open>s.endswith(suffix)\<close>.\<close>

definition py_endswith :: "string \<Rightarrow> string \<Rightarrow> bool" where
  "py_endswith s suf = (length suf \<le> length s \<and> drop (length s - length suf) s = suf)"

text \<open>
  \<open>s.lower()\<close> and \<open>s.upper()\<close>. On the code points below 256 \<open>lower\<close> maps a letter
  to a letter of the same range. \<open>upper\<close> maps the sharp s (223) to two letters; the
  upper-case forms of the micro sign (181) and of y with diaeresis (255) lie beyond
  255, and the model leaves these two characters as they are.
\<close>

definition lower_char :: "char \<Rightarrow> char" where
  "lower_char c =
     (let n = (of_char c :: nat) in
        if (65 \<le> n \<and> n \<le> 90) \<or> (192 \<le> n \<and> n \<le> 222 \<and> n \<noteq> 215) then char_of (n + 32) else c)"

definition py_lower :: "string \<Rightarrow> string" where
  "py_lower s = map lower_char s"

definition upper_char :: "char \<Rightarrow> string" where
  "upper_char c =
     (let n = (of_char c :: nat) in
        if (97 \<le> n \<and> n \<le> 122) \<or> (224 \<le> n \<and> n \<le> 254 \<and> n \<noteq> 247) then [char_of (n - 32)]
        else if n = 223 then ''SS'' else [c])"

definition py_upper :: "string \<Rightarrow> string" where
  "py_upper s = concat (map upper_char s)"

text \<open>
  A key of a JSON object as \<open>d.get(key)\<close> sees it: the key is absent, its value is
  \<open>null\<close> (Python's \<open>None\<close>), or it holds a value.
\<close>

datatype 'a field = Absent | Null | Val 'a

text \<open>\<open>d.get(key, default)\<close>: \<open>None\<close> of the result is Python's \<open>None\<close>.\<close>

definition get_default :: "'a field \<Rightarrow> 'a \<Rightarrow> 'a option" where
  "get_default f d = (case f of Absent \<Rightarrow> Some d | Null \<Rightarrow> None | Val v \<Rightarrow> Some v)"

text \<open>The truth value of \<open>d.get(key)\<close> for a string-valued key.\<close>

definition truthy :: "string field \<Rightarrow> bool" where
  "truthy f = (case f of Val s \<Rightarrow> s \<noteq> [] | _ \<Rightarrow> False)"

text \<open>\<open>d.get(key) or other\<close> for a string-valued key.\<close>

definition or_else :: "string field \<Rightarrow> string \<Rightarrow> string" where
  "or_else f other = (case f of Val s \<Rightarrow> if s \<noteq> [] then s else other | _ \<Rightarrow> other)"

text \<open>
  The exceptions the code can meet. \<open>HTTPError\<close> is a subclass of \<open>URLError\<close>; every
  class but \<open>KeyboardInterrupt\<close> (which stands for the classes deriving from
  \<open>BaseException\<close> only) is a subclass of \<open>Exception\<close>. \<open>OtherException\<close> stands for
  any further subclass of \<open>Exception\<close> (a socket timeout while reading, a
  \<open>UnicodeDecodeError\<close>, ...).
\<close>

datatype py_exc =
    HTTPError (code: nat) (reason: string)
  | URLError (reason: string)
  | JSONDecodeError string
  | TypeError
  | AttributeError
  | OtherException string
  | KeyboardInterrupt

fun isinstance_HTTPError :: "py_exc \<Rightarrow> bool" where
  "isinstance_HTTPError (HTTPError c r) = True"
| "isinstance_HTTPError _ = False"

fun isinstance_URLError :: "py_exc \<Rightarrow> bool" where
  "isinstance_URLError (HTTPError c r) = True"
| "isinstance_URLError (URLError r) = True"
| "isinstance_URLError _ = False"

fun isinstance_JSONDecodeError :: "py_exc \<Rightarrow> bool" where
  "isinstance_JSONDecodeError (JSONDecodeError m) = True"
| "isinstance_JSONDecodeError _ = False"

fun isinstance_Exception :: "py_exc \<Rightarrow> bool" where
  "isinstance_Exception KeyboardInterrupt = False"
| "isinstance_Exception _ = True"

section \<open>The download manager (ckan2.py)\<close>

record resource =
  res_name :: "string field"
  res_description :: "string field"
  res_format :: "string field"
  res_url :: "string field"

text \<open>The loop body of \<open>MenuExplorer.clean_filename\<close>.\<close>

definition clean_char :: "char \<Rightarrow> char" where
  "clean_char c =
     (if isalnum c \<or> c \<in> {CHR '' '', CHR ''-'', CHR ''_'', CHR ''.''} then c else CHR ''_'')"

definition clean_filename :: "string \<Rightarrow> string" where
  "clean_filename filename =
     (let result = py_strip (map clean_char filename);
          result = py_join '' '' (py_split result);
          result = replace_char (CHR '' '') (CHR ''_'') result
      in take 50 result)"

text \<open>
  \<open>MenuExplorer.descargar_recurso_individual\<close>: the result is the pair of arguments
  of the call \<open>download_resource(url, filename)\<close>, or \<open>None\<close> when the resource has no
  URL and nothing is downloaded. A \<open>null\<close> format raises on \<open>.lower()\<close>.
\<close>

definition descargar_recurso_individual ::
    "resource \<Rightarrow> string field \<Rightarrow> py_exc + (string \<times> string) option" where
  "descargar_recurso_individual resource dataset_name =
     (if \<not> truthy (res_url resource) then Inr None
      else
        let name = or_else (res_name resource) (or_else (res_description resource) ''recurso'')
        in case get_default (res_format resource) '''' of
             None \<Rightarrow> Inl AttributeError
           | Some fmt \<Rightarrow>
               let format_type = py_lower fmt;
                   safe_name = clean_filename name;
                   safe_dataset = clean_filename (or_else dataset_name ''dataset'');
                   filename =
                     (if format_type \<noteq> [] \<and> \<not> py_endswith safe_name (''.'' @ format_type)
                      then safe_dataset @ ''_'' @ safe_name @ ''.'' @ format_type
                      else safe_dataset @ ''_'' @ safe_name)
               in Inr (Some (or_else (res_url resource) [], filename)))"

text \<open>The characters a sanitized name may hold: alphanumerics, hyphen, underscore, dot.\<close>

definition allowed_char :: "char \<Rightarrow> bool" where
  "allowed_char c = (isalnum c \<or> c \<in> {CHR ''-'', CHR ''_'', CHR ''.''})"

section \<open>The transport client and the catalog adapters (ckan2.py)\<close>

text \<open>
  What the code prints: one constructor per message, with the interpolated values.
\<close>

datatype printed =
    Error_en_la_API string
  | Error_HTTP nat string
  | Error_de_conexion string
  | Error_al_decodificar_JSON py_exc
  | Error_al_decodificar_respuesta py_exc
  | Error_inesperado py_exc
  | API_requiere_autenticacion
  | Limite_de_requests_excedido
  | Obteniendo_detalles_de string
  | No_se_pudo_obtener_informacion_detallada
  | Detalle_titulo string
  | Detalle_ID string
  | Detalle_descripcion string
  | Detalle_organizacion string
  | Detalle_creado string
  | Detalle_actualizado string
  | Detalle_recursos_disponibles nat
  | Detalle_recurso nat string
  | Detalle_formato string

text \<open>An optional string inside an f-string: \<open>None\<close> prints as \<open>None\<close>.\<close>

definition fmt :: "string option \<Rightarrow> string" where
  "fmt v = (case v of None \<Rightarrow> ''None'' | Some s \<Rightarrow> s)"

text \<open>
  The envelope of a catalog answer: \<open>env_success\<close> is the truth value of
  \<open>json_data.get('success')\<close>, \<open>env_result\<close> is \<open>json_data.get('result')\<close> (\<open>None\<close> when
  the key is absent or \<open>null\<close>), \<open>env_error\<close> is the key \<open>error\<close>.
\<close>

record 'a envelope =
  env_success :: bool
  env_result :: "'a option"
  env_error :: "string field"

text \<open>
  The network is a parameter: for an endpoint and its query parameters, what the
  statements of the \<open>try\<close> block yield up to the decoded JSON, an exception raised
  there (by \<open>urlopen\<close>, \<open>read\<close>, \<open>decode\<close>, \<open>json.loads\<close> or \<open>.get\<close> on a body that
  is no object) or the envelope.
\<close>

type_synonym 'a upstream = "string \<Rightarrow> (string \<times> string) list \<Rightarrow> py_exc + 'a envelope"

text \<open>
  \<open>BuenosAiresCKAN.make_request\<close>: the value returned (\<open>Inl\<close> an exception that
  leaves the function) and what is printed. The \<open>except\<close> clauses are tried in the
  source's order.
\<close>

definition make_request ::
    "'a upstream \<Rightarrow> string \<Rightarrow> (string \<times> string) list \<Rightarrow> (py_exc + 'a option) \<times> printed list" where
  "make_request net endpoint params =
     (case net endpoint params of
        Inr json_data \<Rightarrow>
          if env_success json_data then (Inr (env_result json_data), [])
          else (Inr None,
                [Error_en_la_API (fmt (get_default (env_error json_data) ''Error desconocido''))])
      | Inl e \<Rightarrow>
          if isinstance_HTTPError e then (Inr None, [Error_HTTP (code e) (reason e)])
          else if isinstance_URLError e then (Inr None, [Error_de_conexion (reason e)])
          else if isinstance_JSONDecodeError e then (Inr None, [Error_al_decodificar_JSON e])
          else if isinstance_Exception e then (Inr None, [Error_inesperado e])
          else (Inl e, []))"

text \<open>
  \<open>RealTimeAPI.make_api_request\<close>: the network gives an exception or the decoded
  body (\<open>None\<close> for the JSON \<open>null\<close>).
\<close>

type_synonym 'a realtime = "string \<Rightarrow> (string \<times> string) list \<Rightarrow> py_exc + 'a option"

definition make_api_request ::
    "'a realtime \<Rightarrow> string \<Rightarrow> (string \<times> string) list \<Rightarrow> (py_exc + 'a option) \<times> printed list" where
  "make_api_request net url params =
     (case net url params of
        Inr data \<Rightarrow> (Inr data, [])
      | Inl e \<Rightarrow>
          if isinstance_HTTPError e then
            (Inr None,
             Error_HTTP (code e) (reason e) #
               (if code e = 401 then [API_requiere_autenticacion]
                else if code e = 429 then [Limite_de_requests_excedido] else []))
          else if isinstance_URLError e then (Inr None, [Error_de_conexion (reason e)])
          else if isinstance_JSONDecodeError e then (Inr None, [Error_al_decodificar_respuesta e])
          else if isinstance_Exception e then (Inr None, [Error_inesperado e])
          else (Inl e, []))"

text \<open>The objects of the catalog, with the keys the code reads.\<close>

record organization_ref =
  org_title :: "string field"
  org_ref_name :: "string field"

record dataset =
  ds_id :: "string field"
  ds_name :: "string field"
  ds_title :: "string field"
  ds_notes :: "string field"
  ds_metadata_created :: "string field"
  ds_metadata_modified :: "string field"
  ds_organization :: "organization_ref field"
  ds_resources :: "resource list field"

record search_result =
  sr_count :: "int field"
  sr_results :: "dataset list field"

text \<open>An organization of \<open>organization_list\<close>; \<open>package_count\<close> is an integer when present.\<close>

record organization =
  org_name :: "string field"
  org_display_name :: "string field"
  org_package_count :: "int option"

text \<open>\<open>str(n)\<close> for an integer.\<close>

definition digit_char :: "nat \<Rightarrow> char" where
  "digit_char n = char_of (48 + n)"

fun str_nat :: "nat \<Rightarrow> string" where
  "str_nat n = (if n < 10 then [digit_char n] else str_nat (n div 10) @ [digit_char (n mod 10)])"

definition str_int :: "int \<Rightarrow> string" where
  "str_int i = (if i < 0 then CHR ''-'' # str_nat (nat (- i)) else str_nat (nat i))"

text \<open>The truth value of a search result: a dictionary is false when it has no key.\<close>

definition search_result_truthy :: "search_result \<Rightarrow> bool" where
  "search_result_truthy r = (sr_count r \<noteq> Absent \<or> sr_results r \<noteq> Absent)"

definition empty_search_result :: search_result where
  "empty_search_result = \<lparr>sr_count = Absent, sr_results = Absent\<rparr>"

text \<open>The query parameters of \<open>BuenosAiresCKAN.search_packages\<close>.\<close>

definition search_params :: "string \<Rightarrow> int \<Rightarrow> (string \<times> string) list" where
  "search_params query rows =
     [(''q'', query), (''rows'', str_int rows), (''sort'', ''metadata_modified desc'')]"

text \<open>\<open>BuenosAiresCKAN.search_packages\<close>: \<open>result if result else {}\<close>.\<close>

definition search_packages ::
    "search_result upstream \<Rightarrow> string \<Rightarrow> int \<Rightarrow> (py_exc + search_result) \<times> printed list" where
  "search_packages net query rows =
     (let params = search_params query rows;
          (result, out) = make_request net ''package_search'' params
      in (case result of
            Inl e \<Rightarrow> Inl e
          | Inr None \<Rightarrow> Inr empty_search_result
          | Inr (Some r) \<Rightarrow> Inr (if search_result_truthy r then r else empty_search_result),
          out))"

text \<open>
  \<open>result.get('results', [])\<close>, the result set the callers of \<open>search_packages\<close> keep
  and show; a \<open>null\<close> is shown as no dataset.
\<close>

definition results_of :: "search_result \<Rightarrow> dataset list" where
  "results_of r = (case get_default (sr_results r) [] of None \<Rightarrow> [] | Some ds \<Rightarrow> ds)"

text \<open>\<open>BuenosAiresCKAN.get_package_info\<close>.\<close>

definition get_package_info ::
    "dataset upstream \<Rightarrow> string \<Rightarrow> (py_exc + dataset option) \<times> printed list" where
  "get_package_info net package_id = make_request net ''package_show'' [(''id'', package_id)]"

text \<open>\<open>BuenosAiresCKAN.get_organizations\<close>: \<open>result if result else []\<close>.\<close>

definition get_organizations ::
    "organization list upstream \<Rightarrow> (py_exc + organization list) \<times> printed list" where
  "get_organizations net =
     (let (result, out) = make_request net ''organization_list'' [(''all_fields'', ''true'')]
      in (case result of
            Inl e \<Rightarrow> Inl e
          | Inr None \<Rightarrow> Inr []
          | Inr (Some orgs) \<Rightarrow> Inr orgs,
          out))"

section \<open>The session of the command-line explorer (ckan2.py)\<close>

record menu_explorer =
  current_datasets :: "dataset list"

text \<open>The truth value of a dataset dictionary: false when it has no key.\<close>

definition dataset_truthy :: "dataset \<Rightarrow> bool" where
  "dataset_truthy d =
     (ds_id d \<noteq> Absent \<or> ds_name d \<noteq> Absent \<or> ds_title d \<noteq> Absent \<or> ds_notes d \<noteq> Absent \<or>
      ds_metadata_created d \<noteq> Absent \<or> ds_metadata_modified d \<noteq> Absent \<or>
      ds_organization d \<noteq> Absent \<or> ds_resources d \<noteq> Absent)"

text \<open>\<open>dataset.get('id') or dataset.get('name')\<close>.\<close>

definition id_or_name :: "dataset \<Rightarrow> string option" where
  "id_or_name d =
     (if truthy (ds_id d) then Some (or_else (ds_id d) [])
      else (case ds_name d of Val s \<Rightarrow> Some s | _ \<Rightarrow> None))"

text \<open>\<open>resource.get('format', 'N/A').upper()\<close>; a \<open>null\<close> format raises.\<close>

definition format_type_upper :: "resource \<Rightarrow> py_exc + string" where
  "format_type_upper r =
     (case get_default (res_format r) ''N/A'' of
        None \<Rightarrow> Inl AttributeError
      | Some f \<Rightarrow> Inr (py_upper f))"

text \<open>
  The date lines of \<open>mostrar_detalles_completos\<close>: \<open>created[:10]\<close> and
  \<open>modified[:10]\<close>, printed when the value is true; \<open>None\<close> is no line.
\<close>

definition detalle_fecha :: "string field \<Rightarrow> string option" where
  "detalle_fecha f =
     (case get_default f [] of
        None \<Rightarrow> None
      | Some s \<Rightarrow> if s \<noteq> [] then Some (take 10 s) else None)"

text \<open>
  The resource lines of \<open>mostrar_detalles_completos\<close>, numbered from \<open>i\<close>: name and
  upper-cased format (the size and the URL lines are not part of the model). An
  exception keeps what was printed before it.
\<close>

fun detalle_recursos :: "nat \<Rightarrow> resource list \<Rightarrow> (py_exc + unit) \<times> printed list" where
  "detalle_recursos i [] = (Inr (), [])"
| "detalle_recursos i (r # rs) =
     (let name = or_else (res_name r) (or_else (res_description r) (''Recurso '' @ str_nat i))
      in case format_type_upper r of
           Inl e \<Rightarrow> (Inl e, [])
         | Inr format_type \<Rightarrow>
             (let (x, out) = detalle_recursos (Suc i) rs
              in (x, Detalle_recurso i name # Detalle_formato format_type # out)))"

text \<open>
  \<open>MenuExplorer.mostrar_detalles_completos\<close>: the exception that leaves it (if any),
  the session afterwards and what is printed. The lines for the tags are not part
  of the model.
\<close>

definition mostrar_detalles_completos ::
    "dataset upstream \<Rightarrow> menu_explorer \<Rightarrow> dataset \<Rightarrow> (py_exc + unit) \<times> menu_explorer \<times> printed list" where
  "mostrar_detalles_completos net self dataset =
     (let package_id = fmt (id_or_name dataset);
          out1 = [Obteniendo_detalles_de package_id];
          (detailed_info, out2) = get_package_info net package_id
      in case detailed_info of
           Inl e \<Rightarrow> (Inl e, self, out1 @ out2)
         | Inr None \<Rightarrow> (Inr (), self, out1 @ out2 @ [No_se_pudo_obtener_informacion_detallada])
         | Inr (Some info) \<Rightarrow>
             if \<not> dataset_truthy info
             then (Inr (), self, out1 @ out2 @ [No_se_pudo_obtener_informacion_detallada])
             else
               (let head =
                      [Detalle_titulo (fmt (get_default (ds_title info) (''Sin t'' @ [CHR 0xED] @ ''tulo''))),
                       Detalle_ID (fmt (get_default (ds_name info) ''None'')),
                       Detalle_descripcion (fmt (get_default (ds_notes info) ''No disponible''))];
                    org =
                      (case ds_organization info of
                         Val og \<Rightarrow>
                           if org_title og \<noteq> Absent \<or> org_ref_name og \<noteq> Absent
                           then [Detalle_organizacion
                                   (fmt (case org_title og of
                                           Absent \<Rightarrow> get_default (org_ref_name og) ''N/A''
                                         | Null \<Rightarrow> None
                                         | Val t \<Rightarrow> Some t))]
                           else []
                       | _ \<Rightarrow> []);
                    created =
                      (case detalle_fecha (ds_metadata_created info) of
                         Some c \<Rightarrow> [Detalle_creado c] | None \<Rightarrow> []);
                    modified =
                      (case detalle_fecha (ds_metadata_modified info) of
                         Some m \<Rightarrow> [Detalle_actualizado m] | None \<Rightarrow> []);
                    resources = (case ds_resources info of Val rs \<Rightarrow> rs | _ \<Rightarrow> []);
                    (x, lines) = detalle_recursos 1 resources
                in (x, self,
                    out1 @ out2 @ head @ org @ created @ modified @
                      (if resources \<noteq> [] then Detalle_recursos_disponibles (length resources) # lines
                       else []))))"

section \<open>The list view (ckan2.py, \<open>MenuExplorer.mostrar_lista_datasets\<close>)\<close>

text \<open>The sentinel \<open>Sin descripci\'on\<close> (with the code point 243).\<close>

definition sin_descripcion :: string where
  "sin_descripcion = ''Sin descripci'' @ [CHR 0xF3] @ ''n''"

text \<open>
  The description line: \<open>notes = dataset.get('notes', sentinel)\<close>, cut at 100
  characters; \<open>len\<close> of a \<open>null\<close> raises.
\<close>

definition lista_notes :: "dataset \<Rightarrow> py_exc + string" where
  "lista_notes dataset =
     (case get_default (ds_notes dataset) sin_descripcion of
        None \<Rightarrow> Inl TypeError
      | Some notes \<Rightarrow> Inr (if length notes > 100 then take 100 notes @ ''...'' else notes))"

text \<open>
  \<open>datetime.strptime(s, '%Y-%m-%d')\<close>: four digits, a hyphen, a month (\<open>1[0-2]\<close>,
  \<open>0[1-9]\<close> or \<open>[1-9]\<close>), a hyphen, a day (\<open>3[01]\<close>, \<open>[12]\d\<close>, \<open>0[1-9]\<close>, \<open>[1-9]\<close>
  or a blank and \<open>[1-9]\<close>) and nothing more; the date must exist. \<open>None\<close> is the
  \<open>ValueError\<close>.
\<close>

definition is_digit :: "char \<Rightarrow> bool" where
  "is_digit c = (48 \<le> (of_char c :: nat) \<and> (of_char c :: nat) \<le> 57)"

definition digit_val :: "char \<Rightarrow> nat" where
  "digit_val c = of_char c - 48"

definition month_token :: "string \<Rightarrow> nat option" where
  "month_token m =
     (case m of
        [a] \<Rightarrow> if is_digit a \<and> a \<noteq> CHR ''0'' then Some (digit_val a) else None
      | [a, b] \<Rightarrow>
          if a = CHR ''1'' \<and> b \<in> {CHR ''0'', CHR ''1'', CHR ''2''} then Some (10 + digit_val b)
          else if a = CHR ''0'' \<and> is_digit b \<and> b \<noteq> CHR ''0'' then Some (digit_val b)
          else None
      | _ \<Rightarrow> None)"

definition day_token :: "string \<Rightarrow> nat option" where
  "day_token d =
     (case d of
        [a] \<Rightarrow> if is_digit a \<and> a \<noteq> CHR ''0'' then Some (digit_val a) else None
      | [a, b] \<Rightarrow>
          if a = CHR ''3'' \<and> b \<in> {CHR ''0'', CHR ''1''} then Some (30 + digit_val b)
          else if a \<in> {CHR ''1'', CHR ''2''} \<and> is_digit b then Some (10 * digit_val a + digit_val b)
          else if a \<in> {CHR ''0'', CHR '' ''} \<and> is_digit b \<and> b \<noteq> CHR ''0'' then Some (digit_val b)
          else None
      | _ \<Rightarrow> None)"

definition is_leap :: "nat \<Rightarrow> bool" where
  "is_leap y = (y mod 4 = 0 \<and> (y mod 100 \<noteq> 0 \<or> y mod 400 = 0))"

definition days_in_month :: "nat \<Rightarrow> nat \<Rightarrow> nat" where
  "days_in_month y m =
     (if m = 2 then (if is_leap y then 29 else 28)
      else if m \<in> {4, 6, 9, 11} then 30 else 31)"

definition strptime_ymd :: "string \<Rightarrow> (nat \<times> nat \<times> nat) option" where
  "strptime_ymd s =
     (case s of
        y1 # y2 # y3 # y4 # h # rest \<Rightarrow>
          if is_digit y1 \<and> is_digit y2 \<and> is_digit y3 \<and> is_digit y4 \<and> h = CHR ''-'' then
            (case dropWhile (\<lambda>c. c \<noteq> CHR ''-'') rest of
               [] \<Rightarrow> None
             | h2 # d \<Rightarrow>
                 (case (month_token (takeWhile (\<lambda>c. c \<noteq> CHR ''-'') rest), day_token d) of
                    (Some mo, Some da) \<Rightarrow>
                      (let y = 1000 * digit_val y1 + 100 * digit_val y2 + 10 * digit_val y3 + digit_val y4
                       in if 1 \<le> y \<and> da \<le> days_in_month y mo then Some (y, mo, da) else None)
                  | _ \<Rightarrow> None))
          else None
      | _ \<Rightarrow> None)"

text \<open>
  \<open>date_obj.strftime('%d/%m/%Y')\<close>: day and month on two digits, the year on four
  (as the Python documentation gives \<open>%Y\<close>; the C library of some platforms does
  not pad a year below 1000).
\<close>

definition pad :: "nat \<Rightarrow> string \<Rightarrow> string" where
  "pad w s = replicate (w - length s) (CHR ''0'') @ s"

definition strftime_dmy :: "nat \<times> nat \<times> nat \<Rightarrow> string" where
  "strftime_dmy date =
     (case date of (y, m, d) \<Rightarrow> pad 2 (str_nat d) @ ''/'' @ pad 2 (str_nat m) @ ''/'' @ pad 4 (str_nat y))"

text \<open>
  The date line: \<open>modified = dataset.get('metadata_modified', '')\<close> and the \<open>try\<close>
  block on it; \<open>None\<close> is Python's \<open>None\<close> (no line is printed for it, nor for the
  empty string).
\<close>

definition lista_modified :: "dataset \<Rightarrow> string option" where
  "lista_modified dataset =
     (case get_default (ds_metadata_modified dataset) [] of
        None \<Rightarrow> None
      | Some modified \<Rightarrow>
          if modified = [] then Some modified
          else if CHR ''T'' \<in> set modified then
            (case strptime_ymd (takeWhile (\<lambda>c. c \<noteq> CHR ''T'') modified) of
               Some date_obj \<Rightarrow> Some (strftime_dmy date_obj)
             | None \<Rightarrow> Some (if length modified \<ge> 10 then take 10 modified else modified))
          else Some (take 10 modified))"

text \<open>The formats line: the upper-cased formats of the resources, each once, in order.\<close>

fun lista_formats :: "string list \<Rightarrow> resource list \<Rightarrow> py_exc + string list" where
  "lista_formats formats [] = Inr formats"
| "lista_formats formats (r # rs) =
     (case format_type_upper r of
        Inl e \<Rightarrow> Inl e
      | Inr f \<Rightarrow> lista_formats (if f \<notin> set formats then formats @ [f] else formats) rs)"

section \<open>The organizations view\<close>

text \<open>
  \<open>sorted(orgs, key=lambda x: x.get('package_count', 0), reverse=True)\<close>. A reverse
  sort of CPython reverses the list, sorts it stably by ascending key and reverses
  the result.
\<close>

definition package_count_key :: "organization \<Rightarrow> int" where
  "package_count_key x = (case org_package_count x of None \<Rightarrow> 0 | Some n \<Rightarrow> n)"

definition py_sorted_reverse :: "('a \<Rightarrow> int) \<Rightarrow> 'a list \<Rightarrow> 'a list" where
  "py_sorted_reverse key xs = rev (sort_key key (rev xs))"

text \<open>\<open>orgs_sorted\<close> of \<open>main\<close> (ba_explorer_app.py) and its \<open>top_10\<close>.\<close>

definition orgs_sorted :: "organization list \<Rightarrow> organization list" where
  "orgs_sorted orgs = py_sorted_reverse package_count_key orgs"

definition top_10 :: "organization list \<Rightarrow> organization list" where
  "top_10 orgs = take 10 (orgs_sorted orgs)"

text \<open>\<open>orgs_sorted\<close> of \<open>MenuExplorer.ver_por_organizacion\<close> (ckan2.py).\<close>

definition ver_por_organizacion_orgs_sorted :: "organization list \<Rightarrow> organization list" where
  "ver_por_organizacion_orgs_sorted orgs = take 10 (py_sorted_reverse package_count_key orgs)"

section \<open>The table of the web explorer (ba_explorer_app.py)\<close>

text \<open>A row of the data frame \<open>process_datasets\<close> builds; \<open>None\<close> in a cell is Python's \<open>None\<close>.\<close>

record row =
  titulo :: "string option"
  organizacion :: "string option"
  fecha_modificacion :: string
  num_recursos :: nat
  formatos :: string
  row_id :: "string option"
  descripcion :: string

definition sin_organizacion :: string where
  "sin_organizacion = ''Sin organizaci'' @ [CHR 0xF3] @ ''n''"

definition sin_titulo :: string where
  "sin_titulo = ''Sin t'' @ [CHR 0xED] @ ''tulo''"

text \<open>\<open>org_name\<close> of \<open>process_datasets\<close>.\<close>

definition organizacion_of :: "dataset \<Rightarrow> string option" where
  "organizacion_of dataset =
     (case ds_organization dataset of
        Val og \<Rightarrow>
          if org_title og \<noteq> Absent \<or> org_ref_name og \<noteq> Absent
          then get_default (org_title og) sin_organizacion
          else Some sin_organizacion
      | _ \<Rightarrow> Some sin_organizacion)"

text \<open>\<open>formats\<close> of \<open>process_datasets\<close>: \<open>[r.get('format', 'N/A') for r in resources]\<close>.\<close>

definition formats_of :: "dataset \<Rightarrow> string option list" where
  "formats_of dataset =
     (case ds_resources dataset of
        Val rs \<Rightarrow> map (\<lambda>r. get_default (res_format r) ''N/A'') rs
      | _ \<Rightarrow> [])"

text \<open>\<open>dataset.get('metadata_modified', '')[:10]\<close>; a \<open>null\<close> raises.\<close>

definition fecha_modificacion_of :: "dataset \<Rightarrow> py_exc + string" where
  "fecha_modificacion_of dataset =
     (case get_default (ds_metadata_modified dataset) [] of
        None \<Rightarrow> Inl TypeError
      | Some modified \<Rightarrow> Inr (take 10 modified))"

text \<open>\<open>len(dataset.get('resources', []))\<close>; a \<open>null\<close> raises.\<close>

definition num_recursos_of :: "dataset \<Rightarrow> py_exc + nat" where
  "num_recursos_of dataset =
     (case get_default (ds_resources dataset) [] of
        None \<Rightarrow> Inl TypeError
      | Some rs \<Rightarrow> Inr (length rs))"

text \<open>
  \<open>', '.join(set(formats)) if formats else 'N/A'\<close>. The order in which Python
  iterates over a set of strings is not fixed by the language: \<open>set_order\<close> gives,
  for the list of formats, the elements of the set in that order. \<open>join\<close> raises on
  a \<open>None\<close>.
\<close>

definition formatos_of :: "(string list \<Rightarrow> string list) \<Rightarrow> string option list \<Rightarrow> py_exc + string" where
  "formatos_of set_order formats =
     (if formats \<noteq> [] then
        (if None \<in> set formats then Inl TypeError
         else Inr (py_join '', '' (set_order (map the formats))))
      else Inr ''N/A'')"

text \<open>
  The cell \<open>descripcion\<close>: the conditional expression applies to the whole sum
  \<open>dataset.get('notes', ...)[:150] + '...'\<close>.
\<close>

definition descripcion_of :: "dataset \<Rightarrow> string" where
  "descripcion_of dataset =
     (case ds_notes dataset of
        Val notes \<Rightarrow> if notes \<noteq> [] then take 150 notes @ ''...'' else sin_descripcion
      | _ \<Rightarrow> sin_descripcion)"

definition process_dataset :: "(string list \<Rightarrow> string list) \<Rightarrow> dataset \<Rightarrow> py_exc + row" where
  "process_dataset set_order dataset =
     (case fecha_modificacion_of dataset of
        Inl e \<Rightarrow> Inl e
      | Inr fecha \<Rightarrow>
          (case num_recursos_of dataset of
             Inl e \<Rightarrow> Inl e
           | Inr n \<Rightarrow>
               (case formatos_of set_order (formats_of dataset) of
                  Inl e \<Rightarrow> Inl e
                | Inr fs \<Rightarrow>
                    Inr \<lparr>titulo = get_default (ds_title dataset) sin_titulo,
                         organizacion = organizacion_of dataset,
                         fecha_modificacion = fecha,
                         num_recursos = n,
                         formatos = fs,
                         row_id = get_default (ds_id dataset) [],
                         descripcion = descripcion_of dataset\<rparr>)))"

fun process_rows :: "(string list \<Rightarrow> string list) \<Rightarrow> dataset list \<Rightarrow> py_exc + row list" where
  "process_rows set_order [] = Inr []"
| "process_rows set_order (d # ds) =
     (case process_dataset set_order d of
        Inl e \<Rightarrow> Inl e
      | Inr r \<Rightarrow> (case process_rows set_order ds of Inl e \<Rightarrow> Inl e | Inr rs \<Rightarrow> Inr (r # rs)))"

text \<open>\<open>process_datasets\<close>: no row when the result is empty or has no key \<open>results\<close>.\<close>

definition process_datasets :: "(string list \<Rightarrow> string list) \<Rightarrow> search_result \<Rightarrow> py_exc + row list" where
  "process_datasets set_order datasets_data =
     (if \<not> search_result_truthy datasets_data \<or> sr_results datasets_data = Absent then Inr []
      else (case sr_results datasets_data of
              Val datasets \<Rightarrow> process_rows set_order datasets
            | _ \<Rightarrow> Inl TypeError))"

text \<open>
  \<open>Series.str.contains(pat)\<close> for a pattern without regular-expression operators
  (the choices of the format filter are \<open>CSV\<close>, \<open>JSON\<close>, \<open>PDF\<close> and \<open>Excel\<close>): \<open>pat\<close> occurs
  in the string.
\<close>

fun str_contains :: "string \<Rightarrow> string \<Rightarrow> bool" where
  "str_contains [] pat = (pat = [])"
| "str_contains (c # cs) pat = (take (length pat) (c # cs) = pat \<or> str_contains cs pat)"

text \<open>
  \<open>df_filtered\<close> of \<open>main\<close>: the rows of the table that pass the organization filter
  (\<open>Todas\<close> is no filter) and the format filter (\<open>Todos\<close> is no filter).
\<close>

definition df_filtered :: "string \<Rightarrow> string \<Rightarrow> row list \<Rightarrow> row list" where
  "df_filtered org_filter format_filter df =
     (let filtered = df;
          filtered =
            (if org_filter \<noteq> ''Todas''
             then filter (\<lambda>r. organizacion r = Some org_filter) filtered else filtered);
          filtered =
            (if format_filter \<noteq> ''Todos''
             then filter (\<lambda>r. str_contains (formatos r) format_filter) filtered else filtered)
      in filtered)"

text \<open>An upstream that gives the same answer to every request.\<close>

definition upstream_answering :: "'a \<Rightarrow> string \<Rightarrow> (string \<times> string) list \<Rightarrow> 'a" where
  "upstream_answering answer endpoint params = answer"

section \<open>Properties of the sanitizer\<close>

lemma alnum_not_space: "isalnum c \<Longrightarrow> \<not> isspace c"
  by (auto simp: isalnum_def isspace_def Let_def)

lemma allowed_not_space: "allowed_char c \<Longrightarrow> \<not> isspace c"
  unfolding allowed_char_def
proof (elim disjE)
  assume "isalnum c"
  then show ?thesis by (rule alnum_not_space)
next
  assume "c \<in> {CHR ''-'', CHR ''_'', CHR ''.''}"
  then show ?thesis by (auto simp: isspace_def)
qed

lemma allowed_not_blank: "allowed_char c \<Longrightarrow> c \<noteq> CHR '' ''"
  by (auto simp: allowed_char_def isalnum_def)

lemma clean_char_kept: "allowed_char (clean_char c) \<or> clean_char c = CHR '' ''"
  by (auto simp: allowed_char_def clean_char_def)

lemma clean_char_allowed: "allowed_char c \<Longrightarrow> clean_char c = c"
  by (auto simp: allowed_char_def clean_char_def)

lemma set_py_strip: "set (py_strip s) \<subseteq> set s"
proof
  fix c
  assume "c \<in> set (py_strip s)"
  then have "c \<in> set (rev (dropWhile isspace s))"
    unfolding py_strip_def by (auto dest: set_dropWhileD)
  then show "c \<in> set s"
    by (auto dest: set_dropWhileD)
qed

lemma set_split_from: "w \<in> set (split_from cur s) \<Longrightarrow> set w \<subseteq> set cur \<union> set s"
  by (induction cur s rule: split_from.induct) (auto split: if_splits)

lemma set_py_join: "set (py_join sep ws) \<subseteq> set sep \<union> (\<Union>w\<in>set ws. set w)"
  by (induction sep ws rule: py_join.induct) auto

lemma set_joined_words: "set (py_join '' '' (py_split s)) \<subseteq> insert (CHR '' '') (set s)"
proof
  fix c
  assume "c \<in> set (py_join '' '' (py_split s))"
  then have "c \<in> set '' '' \<union> (\<Union>w\<in>set (py_split s). set w)"
    using set_py_join by blast
  then show "c \<in> insert (CHR '' '') (set s)"
    using set_split_from[of _ "[]" s] by (auto simp: py_split_def)
qed

lemma clean_filename_chars: "c \<in> set (clean_filename s) \<Longrightarrow> allowed_char c"
proof -
  assume "c \<in> set (clean_filename s)"
  then have "c \<in> set (replace_char (CHR '' '') (CHR ''_'')
      (py_join '' '' (py_split (py_strip (map clean_char s)))))"
    by (auto simp: clean_filename_def Let_def dest: in_set_takeD)
  then obtain d where d: "d \<in> set (py_join '' '' (py_split (py_strip (map clean_char s))))"
    and c: "c = (if d = CHR '' '' then CHR ''_'' else d)"
    by (auto simp: replace_char_def)
  from d have "d = CHR '' '' \<or> d \<in> set (py_strip (map clean_char s))"
    using set_joined_words by blast
  then have "d = CHR '' '' \<or> d \<in> set (map clean_char s)"
    using set_py_strip by blast
  then have "d = CHR '' '' \<or> allowed_char d"
    using clean_char_kept by auto
  with c show "allowed_char c"
    by (auto simp: allowed_char_def)
qed

lemma clean_filename_length: "length (clean_filename s) \<le> 50"
  by (simp add: clean_filename_def Let_def)

lemma split_from_no_space:
  "\<forall>c\<in>set s. \<not> isspace c \<Longrightarrow> split_from cur s = (if cur @ s = [] then [] else [cur @ s])"
  by (induction cur s rule: split_from.induct) auto

lemma dropWhile_none: "\<forall>c\<in>set xs. \<not> P c \<Longrightarrow> dropWhile P xs = xs"
  by (cases xs) auto

lemma py_strip_no_space: "\<forall>c\<in>set s. \<not> isspace c \<Longrightarrow> py_strip s = s"
  by (simp add: py_strip_def dropWhile_none)

lemma clean_filename_fixed:
  assumes "\<forall>c\<in>set r. allowed_char c" and "length r \<le> 50"
  shows "clean_filename r = r"
proof -
  have ns: "\<forall>c\<in>set r. \<not> isspace c"
    using assms(1) allowed_not_space by blast
  have m: "map clean_char r = r"
    by (rule map_idI) (simp add: assms(1) clean_char_allowed)
  have j: "py_join '' '' (py_split r) = r"
    using ns by (simp add: py_split_def split_from_no_space)
  have rp: "replace_char (CHR '' '') (CHR ''_'') r = r"
    unfolding replace_char_def by (rule map_idI) (use assms(1) allowed_not_blank in auto)
  show ?thesis
    using assms(2) by (simp add: clean_filename_def Let_def m py_strip_no_space[OF ns] j rp)
qed

section \<open>Properties of the reverse sort\<close>

lemma py_sorted_reverse_descending:
  "sorted_wrt (\<lambda>a b. key a \<ge> key b) (py_sorted_reverse key xs)"
proof -
  have "sorted (map key (sort_key key (rev xs)))"
    by (rule sorted_sort_key)
  then have "sorted (rev (map key (py_sorted_reverse key xs)))"
    by (simp add: py_sorted_reverse_def rev_map)
  then have "sorted_wrt (\<lambda>a b. b \<le> a) (map key (py_sorted_reverse key xs))"
    by (simp add: sorted_wrt_rev)
  then show ?thesis
    by (simp add: sorted_wrt_map)
qed

lemma py_sorted_reverse_stable:
  "filter (\<lambda>x. key x = k) (py_sorted_reverse key xs) = filter (\<lambda>x. key x = k) xs"
proof -
  have "filter (\<lambda>x. key x = k) (sort_key key (rev xs)) = filter (\<lambda>x. key x = k) (rev xs)"
    by (rule sort_key_stable)
  then have "rev (filter (\<lambda>x. key x = k) (sort_key key (rev xs))) = filter (\<lambda>x. key x = k) xs"
    by (simp add: rev_filter)
  then show ?thesis
    by (simp add: py_sorted_reverse_def rev_filter)
qed

lemma py_sorted_reverse_mset: "mset (py_sorted_reverse key xs) = mset xs"
  by (simp add: py_sorted_reverse_def)

section \<open>The claims\<close>

text \<open>
  Claim C1. For every input string passed through the naming path of the download
  manager, the filename handed to the downloader has at most 50 characters, all of
  them alphanumerics, hyphens, underscores or dots.

  The code sanitizes the dataset name and the resource name separately, each to at
  most 50 allowed characters, and hands the downloader their concatenation with an
  underscore, followed by a dot and the lower-cased format when there is one: the
  filename below has 79 characters and holds a blank and parentheses.
\<close>

theorem download_filename_counterexample:
  "descargar_recurso_individual
      \<lparr>res_name = Val ''Estaciones de bicicletas publicas 2023'', res_description = Absent,
       res_format = Val ''CSV (zip)'', res_url = Val ''http://cdn.example/e.zip''\<rparr>
      (Val ''bicicletas-publicas-estaciones'')
     = Inr (Some (''http://cdn.example/e.zip'',
          ''bicicletas-publicas-estaciones_Estaciones_de_bicicletas_publicas_2023.csv (zip)''))
   \<and> length ''bicicletas-publicas-estaciones_Estaciones_de_bicicletas_publicas_2023.csv (zip)'' = 79
   \<and> \<not> allowed_char (CHR ''('')"
  by code_simp

text \<open>
  Claim C1, as the code has it. Every sanitized name has at most 50 characters, all
  of them allowed, whatever the input (the empty string and strings of disallowed
  characters included). The filename handed to the downloader is the sanitized
  dataset name, an underscore and the sanitized resource name, followed either by
  nothing or by a dot and the lower-cased format; the part before the extension has
  at most 101 characters, all of them allowed.
\<close>

theorem download_filename_shape:
  "length (clean_filename s) \<le> 50 \<and> list_all allowed_char (clean_filename s) \<and>
   (descargar_recurso_individual resource dataset_name = Inr (Some (url, filename)) \<longrightarrow>
      (\<exists>safe_dataset safe_name ext f.
          filename = safe_dataset @ ''_'' @ safe_name @ ext \<and>
          safe_dataset = clean_filename (or_else dataset_name ''dataset'') \<and>
          safe_name = clean_filename
            (or_else (res_name resource) (or_else (res_description resource) ''recurso'')) \<and>
          get_default (res_format resource) [] = Some f \<and>
          (ext = [] \<or> ext = ''.'' @ py_lower f) \<and>
          length (safe_dataset @ ''_'' @ safe_name) \<le> 101 \<and>
          list_all allowed_char (safe_dataset @ ''_'' @ safe_name)))"
proof (intro conjI impI)
  show "length (clean_filename s) \<le> 50"
    by (rule clean_filename_length)
  show "list_all allowed_char (clean_filename s)"
    by (simp add: list_all_iff clean_filename_chars)
next
  let ?d = "clean_filename (or_else dataset_name ''dataset'')"
  let ?n = "clean_filename
            (or_else (res_name resource) (or_else (res_description resource) ''recurso''))"
  assume a: "descargar_recurso_individual resource dataset_name = Inr (Some (url, filename))"
  then obtain f where f: "get_default (res_format resource) [] = Some f"
    by (auto simp: descargar_recurso_individual_def Let_def split: if_splits option.splits)
  from a f have "filename = ?d @ ''_'' @ ?n @ [] \<or> filename = ?d @ ''_'' @ ?n @ (''.'' @ py_lower f)"
    by (auto simp: descargar_recurso_individual_def Let_def split: if_splits)
  moreover have "length (?d @ ''_'' @ ?n) \<le> 101"
    using clean_filename_length[of "or_else dataset_name ''dataset''"]
      clean_filename_length[of "or_else (res_name resource) (or_else (res_description resource) ''recurso'')"]
    by simp
  moreover have "allowed_char (CHR ''_'')"
    by (simp add: allowed_char_def)
  then have "list_all allowed_char (?d @ ''_'' @ ?n)"
    by (auto simp: list_all_iff clean_filename_chars)
  ultimately show "\<exists>safe_dataset safe_name ext f.
          filename = safe_dataset @ ''_'' @ safe_name @ ext \<and>
          safe_dataset = clean_filename (or_else dataset_name ''dataset'') \<and>
          safe_name = clean_filename
            (or_else (res_name resource) (or_else (res_description resource) ''recurso'')) \<and>
          get_default (res_format resource) [] = Some f \<and>
          (ext = [] \<or> ext = ''.'' @ py_lower f) \<and>
          length (safe_dataset @ ''_'' @ safe_name) \<le> 101 \<and>
          list_all allowed_char (safe_dataset @ ''_'' @ safe_name)"
    using f by blast
qed

theorem download_filename_shape_witness:
  "length (clean_filename ''###'') \<le> 50 \<and> list_all allowed_char (clean_filename ''###'') \<and>
   descargar_recurso_individual
      \<lparr>res_name = Val ''Datos 2023'', res_description = Absent,
       res_format = Val ''CSV'', res_url = Val ''http://cdn.example/d.csv''\<rparr> (Val ''subte'')
     = Inr (Some (''http://cdn.example/d.csv'', ''subte_Datos_2023.csv''))"
proof -
  have e: "descargar_recurso_individual
      \<lparr>res_name = Val ''Datos 2023'', res_description = Absent,
       res_format = Val ''CSV'', res_url = Val ''http://cdn.example/d.csv''\<rparr> (Val ''subte'')
     = Inr (Some (''http://cdn.example/d.csv'', ''subte_Datos_2023.csv''))"
    by code_simp
  show ?thesis
    using e download_filename_shape [of "''###''"
      "\<lparr>res_name = Val ''Datos 2023'', res_description = Absent,
        res_format = Val ''CSV'', res_url = Val ''http://cdn.example/d.csv''\<rparr>" "Val ''subte''"
      "''http://cdn.example/d.csv''" "''subte_Datos_2023.csv''"]
    by blast
qed

text \<open>
  Claim C2. For every dataset rendered from a search result, the normalized
  description is the original description when that has at most 150 characters, its
  first 150 characters followed by an ellipsis when it is longer, and the sentinel
  \<open>Sin descripci\'on\<close> when the description is absent.

  The list view of the command-line explorer cuts at 100 characters: a description
  of 120 characters is shown as its first 100 characters and an ellipsis.
\<close>

theorem description_counterexample:
  "lista_notes
      \<lparr>ds_id = Val ''subte-viajes'', ds_name = Absent, ds_title = Absent,
       ds_notes = Val (replicate 120 (CHR ''a'')), ds_metadata_created = Absent,
       ds_metadata_modified = Absent, ds_organization = Absent, ds_resources = Absent\<rparr>
     = Inr (replicate 100 (CHR ''a'') @ ''...'')
   \<and> length (replicate 120 (CHR ''a'')) = 120"
  by (simp add: lista_notes_def get_default_def)

text \<open>
  Claim C2, as the code has it. In the table of the web explorer a description of
  more than 150 characters becomes its first 150 characters followed by an ellipsis,
  an absent, \<open>null\<close> or empty description becomes the sentinel, and the cell is never
  empty. In the list view of the command-line explorer the limit is 100 characters:
  a description of at most 100 characters is shown as it is, a longer one as its
  first 100 characters followed by an ellipsis, and an absent one as the sentinel.
\<close>

theorem description_rendering:
  "(ds_notes d = Val s \<and> 150 < length s \<longrightarrow> descripcion_of d = take 150 s @ ''...'') \<and>
   (ds_notes d = Absent \<or> ds_notes d = Null \<or> ds_notes d = Val [] \<longrightarrow>
      descripcion_of d = sin_descripcion) \<and>
   descripcion_of d \<noteq> [] \<and>
   (ds_notes d = Val s \<and> length s \<le> 100 \<longrightarrow> lista_notes d = Inr s) \<and>
   (ds_notes d = Val s \<and> 100 < length s \<longrightarrow> lista_notes d = Inr (take 100 s @ ''...'')) \<and>
   (ds_notes d = Absent \<longrightarrow> lista_notes d = Inr sin_descripcion)"
proof -
  have len: "length sin_descripcion = 15"
    by (simp add: sin_descripcion_def)
  have ne: "sin_descripcion \<noteq> []"
    using len by auto
  have "descripcion_of d \<noteq> []"
    by (cases "ds_notes d") (simp_all add: descripcion_of_def ne)
  moreover have "ds_notes d = Val s \<and> 150 < length s \<longrightarrow> descripcion_of d = take 150 s @ ''...''"
    by (auto simp: descripcion_of_def)
  moreover have "ds_notes d = Absent \<or> ds_notes d = Null \<or> ds_notes d = Val [] \<longrightarrow>
      descripcion_of d = sin_descripcion"
    by (auto simp: descripcion_of_def)
  moreover have "ds_notes d = Val s \<and> length s \<le> 100 \<longrightarrow> lista_notes d = Inr s"
    by (auto simp: lista_notes_def get_default_def)
  moreover have "ds_notes d = Val s \<and> 100 < length s \<longrightarrow> lista_notes d = Inr (take 100 s @ ''...'')"
    by (auto simp: lista_notes_def get_default_def)
  moreover have "ds_notes d = Absent \<longrightarrow> lista_notes d = Inr sin_descripcion"
    using len by (auto simp: lista_notes_def get_default_def)
  ultimately show ?thesis
    by blast
qed

theorem description_rendering_witness:
  "descripcion_of
      \<lparr>ds_id = Val ''subte-viajes'', ds_name = Absent, ds_title = Absent,
       ds_notes = Val (replicate 151 (CHR ''a'')), ds_metadata_created = Absent,
       ds_metadata_modified = Absent, ds_organization = Absent, ds_resources = Absent\<rparr>
     = replicate 150 (CHR ''a'') @ ''...'' \<and>
   lista_notes
      \<lparr>ds_id = Val ''subte-viajes'', ds_name = Absent, ds_title = Absent,
       ds_notes = Val (replicate 151 (CHR ''a'')), ds_metadata_created = Absent,
       ds_metadata_modified = Absent, ds_organization = Absent, ds_resources = Absent\<rparr>
     = Inr (replicate 100 (CHR ''a'') @ ''...'')"
  using description_rendering
    [of "\<lparr>ds_id = Val ''subte-viajes'', ds_name = Absent, ds_title = Absent,
       ds_notes = Val (replicate 151 (CHR ''a'')), ds_metadata_created = Absent,
       ds_metadata_modified = Absent, ds_organization = Absent, ds_resources = Absent\<rparr>"
      "replicate 151 (CHR ''a'')"]
  by simp

text \<open>
  Claim C3. When the Catalog Detail call answers with a \<open>success: false\<close> envelope,
  the session is left unchanged and a failure value carrying the upstream error
  message is returned to the caller.

  The value the call returns is \<open>None\<close> whatever the message, and the detail view
  returns nothing: no value that carries the message is returned.
\<close>

theorem detail_failure_counterexample:
  "fst (get_package_info
      (upstream_answering
         (Inr \<lparr>env_success = False, env_result = None, env_error = Val ''Not found''\<rparr>))
      ''subte-viajes'') = Inr None \<and>
   fst (get_package_info
      (upstream_answering
         (Inr \<lparr>env_success = False, env_result = None, env_error = Val ''Access denied''\<rparr>))
      ''subte-viajes'') = Inr None \<and>
   fst (mostrar_detalles_completos
      (upstream_answering
         (Inr \<lparr>env_success = False, env_result = None, env_error = Val ''Not found''\<rparr>))
      \<lparr>current_datasets = []\<rparr>
      \<lparr>ds_id = Val ''subte-viajes'', ds_name = Absent, ds_title = Absent, ds_notes = Absent,
       ds_metadata_created = Absent, ds_metadata_modified = Absent, ds_organization = Absent,
       ds_resources = Absent\<rparr>) = Inr ()"
  by (simp add: get_package_info_def make_request_def upstream_answering_def
      mostrar_detalles_completos_def)

text \<open>
  Claim C3, as the code has it. When the Catalog Detail call answers with a
  \<open>success: false\<close> envelope, the call returns \<open>None\<close> and prints the upstream error
  message; the detail view leaves the session (the result set it holds) unchanged,
  prints that message and that no detail could be obtained, and returns nothing.
\<close>

theorem detail_failure_keeps_session:
  assumes "net ''package_show'' [(''id'', fmt (id_or_name dataset))] = Inr env"
    and "\<not> env_success env"
  shows "get_package_info net (fmt (id_or_name dataset))
           = (Inr None, [Error_en_la_API (fmt (get_default (env_error env) ''Error desconocido''))]) \<and>
         mostrar_detalles_completos net self dataset
           = (Inr (), self,
              [Obteniendo_detalles_de (fmt (id_or_name dataset)),
               Error_en_la_API (fmt (get_default (env_error env) ''Error desconocido'')),
               No_se_pudo_obtener_informacion_detallada])"
  using assms
  by (simp add: mostrar_detalles_completos_def get_package_info_def make_request_def)

theorem detail_failure_keeps_session_witness:
  "mostrar_detalles_completos
      (upstream_answering
         (Inr \<lparr>env_success = False, env_result = None, env_error = Val ''Not found''\<rparr>))
      \<lparr>current_datasets = []\<rparr>
      \<lparr>ds_id = Val ''subte-viajes'', ds_name = Absent, ds_title = Absent, ds_notes = Absent,
       ds_metadata_created = Absent, ds_metadata_modified = Absent, ds_organization = Absent,
       ds_resources = Absent\<rparr>
    = (Inr (), \<lparr>current_datasets = []\<rparr>,
       [Obteniendo_detalles_de ''subte-viajes'', Error_en_la_API ''Not found'',
        No_se_pudo_obtener_informacion_detallada])"
  using detail_failure_keeps_session
    [of "upstream_answering
           (Inr \<lparr>env_success = False, env_result = None, env_error = Val ''Not found''\<rparr>)"
        "\<lparr>ds_id = Val ''subte-viajes'', ds_name = Absent, ds_title = Absent, ds_notes = Absent,
          ds_metadata_created = Absent, ds_metadata_modified = Absent, ds_organization = Absent,
          ds_resources = Absent\<rparr>"
        "\<lparr>env_success = False, env_result = None, env_error = Val ''Not found''\<rparr>"
        "\<lparr>current_datasets = []\<rparr>"]
  by (simp add: upstream_answering_def id_or_name_def truthy_def or_else_def fmt_def get_default_def)

text \<open>
  Claim C4. For every result limit \<open>n\<close> passed to the search and every upstream
  response, the result set returned by the search has at most \<open>n\<close> elements.

  The search sends the limit upstream and returns what the upstream answers: with
  the limit 1 and an upstream answer of two datasets, it returns both.
\<close>

theorem search_limit_counterexample:
  "fst (search_packages
      (upstream_answering
         (Inr \<lparr>env_success = True,
               env_result = Some
                 \<lparr>sr_count = Val 137,
                  sr_results = Val
                    [\<lparr>ds_id = Val ''subte-viajes'', ds_name = Absent, ds_title = Absent,
                      ds_notes = Absent, ds_metadata_created = Absent,
                      ds_metadata_modified = Absent, ds_organization = Absent,
                      ds_resources = Absent\<rparr>,
                     \<lparr>ds_id = Val ''colectivos-gtfs'', ds_name = Absent, ds_title = Absent,
                      ds_notes = Absent, ds_metadata_created = Absent,
                      ds_metadata_modified = Absent, ds_organization = Absent,
                      ds_resources = Absent\<rparr>]\<rparr>,
               env_error = Absent\<rparr>))
      ''transporte'' 1)
    = Inr \<lparr>sr_count = Val 137,
           sr_results = Val
             [\<lparr>ds_id = Val ''subte-viajes'', ds_name = Absent, ds_title = Absent,
               ds_notes = Absent, ds_metadata_created = Absent,
               ds_metadata_modified = Absent, ds_organization = Absent,
               ds_resources = Absent\<rparr>,
              \<lparr>ds_id = Val ''colectivos-gtfs'', ds_name = Absent, ds_title = Absent,
               ds_notes = Absent, ds_metadata_created = Absent,
               ds_metadata_modified = Absent, ds_organization = Absent,
               ds_resources = Absent\<rparr>]\<rparr>
   \<and> length (results_of
        \<lparr>sr_count = Val 137,
         sr_results = Val
           [\<lparr>ds_id = Val ''subte-viajes'', ds_name = Absent, ds_title = Absent,
             ds_notes = Absent, ds_metadata_created = Absent,
             ds_metadata_modified = Absent, ds_organization = Absent,
             ds_resources = Absent\<rparr>,
            \<lparr>ds_id = Val ''colectivos-gtfs'', ds_name = Absent, ds_title = Absent,
             ds_notes = Absent, ds_metadata_created = Absent,
             ds_metadata_modified = Absent, ds_organization = Absent,
             ds_resources = Absent\<rparr>]\<rparr>) = 2"
  by (simp add: search_packages_def make_request_def upstream_answering_def
      search_result_truthy_def results_of_def get_default_def)

text \<open>
  Claim C4, as the code has it. The search sends the limit \<open>n\<close> upstream as the
  parameter \<open>rows\<close> and returns the result list of the upstream answer to that
  request as it is (the empty list when the request fails or the answer holds no
  result): the result set has at most \<open>n\<close> elements exactly when the upstream answer
  has.
\<close>

theorem search_returns_upstream_results:
  "map_sum id results_of (fst (search_packages net query n)) =
     (case net ''package_search''
             [(''q'', query), (''rows'', str_int n), (''sort'', ''metadata_modified desc'')] of
        Inl e \<Rightarrow> if isinstance_Exception e then Inr [] else Inl e
      | Inr env \<Rightarrow>
          Inr (if env_success env
               then (case env_result env of None \<Rightarrow> [] | Some upstream \<Rightarrow> results_of upstream)
               else []))"
proof (cases "net ''package_search''
             [(''q'', query), (''rows'', str_int n), (''sort'', ''metadata_modified desc'')]")
  case (Inl e)
  then show ?thesis
    by (cases e)
      (simp_all add: search_packages_def search_params_def make_request_def
        results_of_def empty_search_result_def get_default_def)
next
  case (Inr env)
  then show ?thesis
    by (auto simp: search_packages_def search_params_def make_request_def
        results_of_def empty_search_result_def get_default_def search_result_truthy_def
        split: option.splits)
qed

theorem search_returns_upstream_results_witness:
  "map_sum id results_of
     (fst (search_packages
        (upstream_answering
           (Inr \<lparr>env_success = True,
                 env_result = Some \<lparr>sr_count = Val 0, sr_results = Val []\<rparr>,
                 env_error = Absent\<rparr>))
        ''transporte'' 10)) = Inr []"
  using search_returns_upstream_results
    [of "upstream_answering
           (Inr \<lparr>env_success = True,
                 env_result = Some \<lparr>sr_count = Val 0, sr_results = Val []\<rparr>,
                 env_error = Absent\<rparr>)" "''transporte''" 10]
  by (simp add: upstream_answering_def results_of_def get_default_def)

text \<open>
  Claim C5. For every date-like field, normalization keeps exactly the first 10
  characters when a full timestamp is present, and a value of fewer than 10
  characters passes through unchanged.

  The list view of the command-line explorer shows a timestamp with a \<open>T\<close> whose
  date part parses as day, month and year separated by slashes, not as its first
  10 characters.
\<close>

theorem date_counterexample:
  "lista_modified
      \<lparr>ds_id = Val ''subte-viajes'', ds_name = Absent, ds_title = Absent, ds_notes = Absent,
       ds_metadata_created = Absent, ds_metadata_modified = Val ''2024-03-15T10:20:30.123456'',
       ds_organization = Absent, ds_resources = Absent\<rparr>
     = Some ''15/03/2024''
   \<and> take 10 ''2024-03-15T10:20:30.123456'' = ''2024-03-15''"
  by code_simp

text \<open>
  Claim C5, as the code has it. The table of the web explorer and the detail view
  keep the first 10 characters of a date (the whole value when it has at most 10
  characters, with no padding). The list view of the command-line explorer does the
  same for a value without a \<open>T\<close>; for a value with a \<open>T\<close> it shows the date before
  the \<open>T\<close> as day/month/year when that part parses as a date, and the first 10
  characters of the value otherwise.
\<close>

theorem date_rendering:
  "(ds_metadata_modified d = Val s \<longrightarrow> fecha_modificacion_of d = Inr (take 10 s)) \<and>
   (s \<noteq> [] \<longrightarrow> detalle_fecha (Val s) = Some (take 10 s)) \<and>
   (length s \<le> 10 \<longrightarrow> take 10 s = s) \<and>
   (ds_metadata_modified d = Val s \<and> CHR ''T'' \<notin> set s \<longrightarrow> lista_modified d = Some (take 10 s)) \<and>
   (ds_metadata_modified d = Val s \<and> CHR ''T'' \<in> set s \<longrightarrow>
      lista_modified d =
        Some (case strptime_ymd (takeWhile (\<lambda>c. c \<noteq> CHR ''T'') s) of
                Some date_obj \<Rightarrow> strftime_dmy date_obj
              | None \<Rightarrow> take 10 s))"
proof (intro conjI impI)
  show "fecha_modificacion_of d = Inr (take 10 s)" if "ds_metadata_modified d = Val s"
    using that by (simp add: fecha_modificacion_of_def get_default_def)
  show "detalle_fecha (Val s) = Some (take 10 s)" if "s \<noteq> []"
    using that by (simp add: detalle_fecha_def get_default_def)
  show "take 10 s = s" if "length s \<le> 10"
    using that by simp
  show "lista_modified d = Some (take 10 s)"
    if "ds_metadata_modified d = Val s \<and> CHR ''T'' \<notin> set s"
    using that by (simp add: lista_modified_def get_default_def)
  show "lista_modified d =
        Some (case strptime_ymd (takeWhile (\<lambda>c. c \<noteq> CHR ''T'') s) of
                Some date_obj \<Rightarrow> strftime_dmy date_obj
              | None \<Rightarrow> take 10 s)"
    if "ds_metadata_modified d = Val s \<and> CHR ''T'' \<in> set s"
    using that by (auto simp: lista_modified_def get_default_def split: option.splits)
qed

theorem date_rendering_witness:
  "fecha_modificacion_of
      \<lparr>ds_id = Val ''subte-viajes'', ds_name = Absent, ds_title = Absent, ds_notes = Absent,
       ds_metadata_created = Absent, ds_metadata_modified = Val ''2024-03-15 10:20'',
       ds_organization = Absent, ds_resources = Absent\<rparr> = Inr ''2024-03-15'' \<and>
   detalle_fecha (Val ''2024-03-15 10:20'') = Some ''2024-03-15'' \<and>
   lista_modified
      \<lparr>ds_id = Val ''subte-viajes'', ds_name = Absent, ds_title = Absent, ds_notes = Absent,
       ds_metadata_created = Absent, ds_metadata_modified = Val ''2024-03-15 10:20'',
       ds_organization = Absent, ds_resources = Absent\<rparr> = Some ''2024-03-15''"
  using date_rendering
    [of "\<lparr>ds_id = Val ''subte-viajes'', ds_name = Absent, ds_title = Absent, ds_notes = Absent,
          ds_metadata_created = Absent, ds_metadata_modified = Val ''2024-03-15 10:20'',
          ds_organization = Absent, ds_resources = Absent\<rparr>" "''2024-03-15 10:20''"]
  by simp

text \<open>
  Claim C6. For every resource, the normalized format is the upper-cased upstream
  format, and a missing format becomes \<open>N/A\<close>, in every place the program normalizes
  resource formats.

  The list view, the detail view and the download menu upper-case the format
  (\<open>format_type_upper\<close>); the table of the web explorer does not: for a resource of
  format \<open>csv\<close> its formats are \<open>csv\<close>, where the other views show \<open>CSV\<close>.
\<close>

theorem table_formats_not_upper_cased:
  "formats_of
      \<lparr>ds_id = Val ''subte-viajes'', ds_name = Absent, ds_title = Absent, ds_notes = Absent,
       ds_metadata_created = Absent, ds_metadata_modified = Absent, ds_organization = Absent,
       ds_resources = Val
         [\<lparr>res_name = Val ''viajes'', res_description = Absent, res_format = Val ''csv'',
           res_url = Absent\<rparr>]\<rparr>
     = [Some ''csv''] \<and>
   format_type_upper
      \<lparr>res_name = Val ''viajes'', res_description = Absent, res_format = Val ''csv'',
       res_url = Absent\<rparr> = Inr ''CSV'' \<and>
   lista_formats []
      [\<lparr>res_name = Val ''viajes'', res_description = Absent, res_format = Val ''csv'',
        res_url = Absent\<rparr>] = Inr [''CSV'']"
  by code_simp

text \<open>
  Claim C7. The organizations are sorted in descending order of dataset count, and
  organizations with equal counts keep their upstream order (the sort is stable):
  the sorted list is in descending order of the count, for every count the
  organizations with that count appear as in the upstream list, and the sorted list
  is a permutation of the upstream list. Both views show its first ten entries.
\<close>

theorem orgs_sorted_descending_stable:
  "sorted_wrt (\<lambda>a b. package_count_key a \<ge> package_count_key b) (orgs_sorted orgs) \<and>
   (\<forall>k. filter (\<lambda>x. package_count_key x = k) (orgs_sorted orgs)
          = filter (\<lambda>x. package_count_key x = k) orgs) \<and>
   mset (orgs_sorted orgs) = mset orgs \<and>
   top_10 orgs = take 10 (orgs_sorted orgs) \<and>
   ver_por_organizacion_orgs_sorted orgs = take 10 (orgs_sorted orgs)"
  by (simp add: orgs_sorted_def top_10_def ver_por_organizacion_orgs_sorted_def
      py_sorted_reverse_descending py_sorted_reverse_stable py_sorted_reverse_mset)

theorem orgs_sorted_witness:
  "orgs_sorted
          [\<lparr>org_name = Val ''a'', org_display_name = Absent, org_package_count = Some 3\<rparr>,
           \<lparr>org_name = Val ''b'', org_display_name = Absent, org_package_count = Some 7\<rparr>,
           \<lparr>org_name = Val ''c'', org_display_name = Absent, org_package_count = Some 3\<rparr>,
           \<lparr>org_name = Val ''d'', org_display_name = Absent, org_package_count = None\<rparr>]
    = [\<lparr>org_name = Val ''b'', org_display_name = Absent, org_package_count = Some 7\<rparr>,
       \<lparr>org_name = Val ''a'', org_display_name = Absent, org_package_count = Some 3\<rparr>,
       \<lparr>org_name = Val ''c'', org_display_name = Absent, org_package_count = Some 3\<rparr>,
       \<lparr>org_name = Val ''d'', org_display_name = Absent, org_package_count = None\<rparr>]"
  using orgs_sorted_descending_stable
    [of "[\<lparr>org_name = Val ''a'', org_display_name = Absent, org_package_count = Some 3\<rparr>,
           \<lparr>org_name = Val ''b'', org_display_name = Absent, org_package_count = Some 7\<rparr>,
           \<lparr>org_name = Val ''c'', org_display_name = Absent, org_package_count = Some 3\<rparr>,
           \<lparr>org_name = Val ''d'', org_display_name = Absent, org_package_count = None\<rparr>]"]
  by (simp add: orgs_sorted_def py_sorted_reverse_def package_count_key_def)

text \<open>
  Claim C8. The transport layer lets no exception escape: for every failure (an HTTP
  error status, a connection failure, a timeout, a malformed JSON body or any other
  exception, that is every instance of \<open>Exception\<close>) raised while the request is
  made and decoded, \<open>make_request\<close> and \<open>make_api_request\<close> return \<open>None\<close> instead of
  raising, and \<open>make_request\<close> prints exactly one message, the one of the failure's
  kind.
\<close>

theorem transport_never_raises:
  assumes "net endpoint params = Inl e" and "rt url query = Inl e" and "isinstance_Exception e"
  shows "fst (make_request net endpoint params) = Inr None \<and>
         snd (make_request net endpoint params) =
           [if isinstance_HTTPError e then Error_HTTP (code e) (reason e)
            else if isinstance_URLError e then Error_de_conexion (reason e)
            else if isinstance_JSONDecodeError e then Error_al_decodificar_JSON e
            else Error_inesperado e] \<and>
         fst (make_api_request rt url query) = Inr None"
  using assms by (cases e) (simp_all add: make_request_def make_api_request_def)

theorem transport_never_raises_witness:
  "make_request
      (upstream_answering (Inl (HTTPError 404 ''Not Found'') :: py_exc + dataset envelope))
      ''package_show'' [(''id'', ''x'')] = (Inr None, [Error_HTTP 404 ''Not Found'']) \<and>
   fst (make_api_request
      (upstream_answering (Inl (HTTPError 404 ''Not Found'') :: py_exc + unit option))
      ''https://api-transporte.buenosaires.gob.ar/subte/serviceAlerts'' []) = Inr None"
  using transport_never_raises
    [of "upstream_answering (Inl (HTTPError 404 ''Not Found'') :: py_exc + dataset envelope)"
        "''package_show''" "[(''id'', ''x'')]" "HTTPError 404 ''Not Found''"
        "upstream_answering (Inl (HTTPError 404 ''Not Found'') :: py_exc + unit option)"
        "''https://api-transporte.buenosaires.gob.ar/subte/serviceAlerts''" "[]"]
  by (simp add: upstream_answering_def prod_eq_iff)

text \<open>
  Claim C9. Filtering is idempotent: for every table and every choice of the
  organization filter (exact match) and of the format filter (substring match),
  applying the same filter to the filtered table gives the filtered table.
\<close>

theorem df_filtered_idempotent:
  "df_filtered org_filter format_filter (df_filtered org_filter format_filter df)
     = df_filtered org_filter format_filter df"
  by (auto simp: df_filtered_def Let_def intro!: filter_cong)

theorem df_filtered_idempotent_witness:
  "df_filtered ''Transporte'' ''CSV''
     (df_filtered ''Transporte'' ''CSV''
        [\<lparr>titulo = Some ''Subte'', organizacion = Some ''Transporte'', fecha_modificacion = ''2024-03-15'',
          num_recursos = 1, formatos = ''CSV, JSON'', row_id = Some ''a'', descripcion = ''x...''\<rparr>,
         \<lparr>titulo = Some ''Arbolado'', organizacion = Some ''Ambiente'', fecha_modificacion = ''2023-01-02'',
          num_recursos = 1, formatos = ''CSV'', row_id = Some ''b'', descripcion = ''y...''\<rparr>])
   = [\<lparr>titulo = Some ''Subte'', organizacion = Some ''Transporte'', fecha_modificacion = ''2024-03-15'',
          num_recursos = 1, formatos = ''CSV, JSON'', row_id = Some ''a'', descripcion = ''x...''\<rparr>]"
  using df_filtered_idempotent [of "''Transporte''" "''CSV''"
        "[\<lparr>titulo = Some ''Subte'', organizacion = Some ''Transporte'', fecha_modificacion = ''2024-03-15'',
          num_recursos = 1, formatos = ''CSV, JSON'', row_id = Some ''a'', descripcion = ''x...''\<rparr>,
         \<lparr>titulo = Some ''Arbolado'', organizacion = Some ''Ambiente'', fecha_modificacion = ''2023-01-02'',
          num_recursos = 1, formatos = ''CSV'', row_id = Some ''b'', descripcion = ''y...''\<rparr>]"]
  by (simp add: df_filtered_def)

text \<open>
  Claim C10. The filename sanitizer is idempotent: for every input string,
  sanitizing an already sanitized name changes nothing.
\<close>

theorem clean_filename_idempotent: "clean_filename (clean_filename s) = clean_filename s"
  by (rule clean_filename_fixed) (auto simp: clean_filename_chars clean_filename_length)

theorem clean_filename_idempotent_witness:
  "clean_filename (clean_filename ''Calle Corrientes #1000 / Datos.csv'')
     = clean_filename ''Calle Corrientes #1000 / Datos.csv''"
  using clean_filename_idempotent [of "''Calle Corrientes #1000 / Datos.csv''"] by simp

end
